theory Spec2Isabelle
  imports Complex_Main
begin

section \<open>JavaScript values and string operations\<close>

text \<open>
  A string is the list of the bytes of its UTF-8 form; a character below 128 is an ASCII
  character. Equality of strings, the search for an ASCII substring and the split at a
  comma act on these bytes as they act on the string.

  Three operations of the language rest on tables and on an arithmetic that are not
  part of the program: \<open>toLowerCase\<close> and \<open>trim\<close> on strings that hold a character
  outside ASCII, and the rounding of a real number to a double. They are parameters of
  the model, the \<open>builtins\<close>. What is fixed of them is what the language fixes without
  the tables: a string of ASCII characters is folded letter by letter and trimmed of the
  six ASCII white space characters; rounding to a double is monotone and leaves every
  integer up to \<open>2^53\<close> as it is.
\<close>

typedef rounding =
  "{f :: real \<Rightarrow> real.
      mono f \<and> (\<forall>n::int. \<bar>n\<bar> \<le> 2 ^ 53 \<longrightarrow> f (real_of_int n) = real_of_int n)}"
  by (rule exI [of _ "\<lambda>x. x"]) (simp add: mono_def)

record builtins =
  unicode_toLowerCase :: "string \<Rightarrow> string"
  unicode_trim :: "string \<Rightarrow> string"
  round_to_double :: rounding

text \<open>\<open>fl B x\<close> is the double nearest to \<open>x\<close>: the result of one arithmetic operation.\<close>

definition fl :: "builtins \<Rightarrow> real \<Rightarrow> real" where
  "fl B x = Rep_rounding (round_to_double B) x"

definition is_ascii :: "char \<Rightarrow> bool" where
  "is_ascii c = (\<not> digit7 c)"

definition toLowerCase_char :: "char \<Rightarrow> char" where
  "toLowerCase_char c =
     (case map_of (zip ''ABCDEFGHIJKLMNOPQRSTUVWXYZ'' ''abcdefghijklmnopqrstuvwxyz'') c of
        None \<Rightarrow> c
      | Some d \<Rightarrow> d)"

definition toLowerCase :: "builtins \<Rightarrow> string \<Rightarrow> string" where
  "toLowerCase B s =
     (if list_all is_ascii s then map toLowerCase_char s else unicode_toLowerCase B s)"

fun startsWith :: "string \<Rightarrow> string \<Rightarrow> bool" where
  "startsWith s [] = True"
| "startsWith [] (p # ps) = False"
| "startsWith (c # cs) (p # ps) = (c = p \<and> startsWith cs ps)"

text \<open>\<open>s.includes(sub)\<close>: \<open>sub\<close> occurs in \<open>s\<close> as a contiguous substring.\<close>

fun str_includes :: "string \<Rightarrow> string \<Rightarrow> bool" where
  "str_includes [] sub = (sub = [])"
| "str_includes (c # cs) sub = (startsWith (c # cs) sub \<or> str_includes cs sub)"

text \<open>
  \<open>s.split(sep)\<close> for a one-character separator: the pieces between the separators,
  at least one piece, empty pieces kept.
\<close>

fun split :: "char \<Rightarrow> string \<Rightarrow> string list" where
  "split sep [] = [[]]"
| "split sep (c # cs) =
     (if c = sep then [] # split sep cs
      else (case split sep cs of [] \<Rightarrow> [[c]] | p # ps \<Rightarrow> (c # p) # ps))"

definition is_space :: "char \<Rightarrow> bool" where
  "is_space c = (c \<in> set [CHR '' '', CHR 0x09, CHR 0x0A, CHR 0x0B, CHR 0x0C, CHR 0x0D])"

definition trim :: "builtins \<Rightarrow> string \<Rightarrow> string" where
  "trim B s =
     (if list_all is_ascii s then rev (dropWhile is_space (rev (dropWhile is_space s)))
      else unicode_trim B s)"

text \<open>
  A property that holds a string or is missing (\<open>undefined\<close>, \<open>null\<close>) is a
  \<open>string option\<close>. Such a value is truthy when it is present and not the empty string.
\<close>

definition truthy_string :: "string option \<Rightarrow> bool" where
  "truthy_string v = (case v of None \<Rightarrow> False | Some s \<Rightarrow> s \<noteq> [])"

text \<open>
  A JavaScript number is a real number (the value of a double) or \<open>NaN\<close>. \<open>Math.max\<close>
  and \<open>Math.min\<close> return \<open>NaN\<close> as soon as one argument is \<open>NaN\<close>; \<open>Math.round\<close>
  returns the integer nearest to its argument, a half upwards, without rounding error.
\<close>

datatype jsnumber = Num real | NaN

fun Math_max :: "jsnumber \<Rightarrow> jsnumber \<Rightarrow> jsnumber" where
  "Math_max (Num a) (Num b) = Num (max a b)"
| "Math_max _ _ = NaN"

fun Math_min :: "jsnumber \<Rightarrow> jsnumber \<Rightarrow> jsnumber" where
  "Math_min (Num a) (Num b) = Num (min a b)"
| "Math_min _ _ = NaN"

definition Math_round :: "real \<Rightarrow> int" where
  "Math_round x = \<lfloor>x + 1 / 2\<rfloor>"

datatype js_error = JsError string string

section \<open>The matching engine (js/ai-matching.js)\<close>

record profile =
  name :: string
  age :: int
  occupation :: "string option"
  bio :: "string option"
  interests :: "string list option"
  location :: "string option"

record compat_result =
  score :: jsnumber
  reason :: "string option"
  highlights :: "string list"
  concerns :: "string list"

text \<open>
  The state the engine can reach: the browser's \<open>localStorage\<close>, the engine's
  \<open>apiKey\<close> field (\<open>None\<close> is \<open>null\<close>), and the source of \<open>Math.random()\<close>,
  a sequence of draws with the number of draws taken so far. Each draw of
  \<open>Math.random()\<close> is a double in \<open>[0, 1)\<close>.
\<close>

record browser =
  localStorage :: "string \<Rightarrow> string option"

record ai_engine = browser +
  apiKey :: "string option"
  random_draws :: "nat \<Rightarrow> real"
  draws_taken :: nat

definition Math_random :: "ai_engine \<Rightarrow> real \<times> ai_engine" where
  "Math_random w = (random_draws w (draws_taken w), w\<lparr>draws_taken := Suc (draws_taken w)\<rparr>)"

definition setApiKey :: "string \<Rightarrow> ai_engine \<Rightarrow> ai_engine" where
  "setApiKey key w =
     w\<lparr>apiKey := Some key, localStorage := (localStorage w)(''openai_api_key'' \<mapsto> key)\<rparr>"

definition getApiKey :: "ai_engine \<Rightarrow> string option \<times> ai_engine" where
  "getApiKey w =
     (let w' = (if \<not> truthy_string (apiKey w)
                then w\<lparr>apiKey := localStorage w ''openai_api_key''\<rparr> else w)
      in (apiKey w', w'))"

definition hasApiKey :: "ai_engine \<Rightarrow> bool \<times> ai_engine" where
  "hasApiKey w = (let (key, w') = getApiKey w in (truthy_string key, w'))"

text \<open>
  What the network does with the request of \<open>callChatGPT\<close>: \<open>fetch\<close> rejects; or the
  response is not ok, and reading its body throws or gives \<open>error.error?.message\<close>
  (\<open>None\<close> when that is missing); or the response is ok, and reading
  \<open>data.choices[0].message.content\<close> throws or gives the text.
\<close>

datatype fetch_outcome =
    Rejected js_error
  | NotOk "js_error + string option"
  | Ok "js_error + string"

definition callChatGPT :: "fetch_outcome \<Rightarrow> ai_engine \<Rightarrow> (js_error + string) \<times> ai_engine" where
  "callChatGPT net w =
     (let (key, w') = getApiKey w in
      if \<not> truthy_string key
      then (Inl (JsError ''Error'' ''OpenAI API key not set. Please configure it in settings.''), w')
      else (case net of
              Rejected e \<Rightarrow> (Inl e, w')
            | NotOk (Inl e) \<Rightarrow> (Inl e, w')
            | NotOk (Inr msg) \<Rightarrow>
                (Inl (JsError ''Error''
                   (if truthy_string msg then the msg else ''API request failed'')), w')
            | Ok (Inl e) \<Rightarrow> (Inl e, w')
            | Ok (Inr content) \<Rightarrow> (Inr content, w')))"

text \<open>
  \<open>response.match(/\{[\s\S]*\}/)\<close>: the leftmost, longest match runs from the first
  opening brace to the last closing brace after it; there is no match when no closing
  brace follows the first opening one.
\<close>

definition match_object :: "string \<Rightarrow> string option" where
  "match_object s =
     (case dropWhile (\<lambda>c. c \<noteq> CHR ''{'') s of
        [] \<Rightarrow> None
      | b # t \<Rightarrow>
          (case rev (dropWhile (\<lambda>c. c \<noteq> CHR ''}'') (rev t)) of
             [] \<Rightarrow> None
           | u \<Rightarrow> Some (b # u)))"

text \<open>
  The object that \<open>JSON.parse\<close> returns, as far as \<open>calculateCompatibility\<close> reads it:
  \<open>json_score\<close> is the number that \<open>Math.max\<close> makes of \<open>result.score\<close>, which is
  the property itself when it is a number and \<open>NaN\<close> when the property is missing
  (\<open>undefined\<close>); the other properties are \<open>None\<close> when they are missing. \<open>JSON.parse\<close> itself is a parameter of the model:
  it returns such an object or throws.
\<close>

record llm_json =
  json_score :: jsnumber
  json_reason :: "string option"
  json_highlights :: "string list option"
  json_concerns :: "string list option"

subsection \<open>The fallback heuristic\<close>

definition ageScore :: "int \<Rightarrow> int" where
  "ageScore ageDiff =
     (if ageDiff \<le> 5 then 15
      else if ageDiff \<le> 10 then 10
      else if ageDiff \<le> 15 then 5
      else - 10)"

text \<open>\<open>loc.split(',')[1]?.trim()\<close>: \<open>None\<close> is \<open>undefined\<close>.\<close>

definition region :: "builtins \<Rightarrow> string \<Rightarrow> string option" where
  "region B loc =
     (case split (CHR '','') loc of p # r # rest \<Rightarrow> Some (trim B r) | _ \<Rightarrow> None)"

definition locationScore :: "builtins \<Rightarrow> string option \<Rightarrow> string option \<Rightarrow> int" where
  "locationScore B l1 l2 =
     (if truthy_string l1 \<and> truthy_string l2
      then (let loc1 = toLowerCase B (the l1); loc2 = toLowerCase B (the l2)
            in if str_includes loc1 ''ny'' \<and> str_includes loc2 ''ny'' then 15
               else if region B loc1 = region B loc2 then 10
               else 0)
      else 0)"

definition commonInterests :: "builtins \<Rightarrow> string list \<Rightarrow> string list \<Rightarrow> string list" where
  "commonInterests B xs ys =
     filter (\<lambda>i. list_ex (\<lambda>j. toLowerCase B j = toLowerCase B i) ys) xs"

definition interestScore ::
  "builtins \<Rightarrow> string list option \<Rightarrow> string list option \<Rightarrow> int" where
  "interestScore B i1 i2 =
     (case (i1, i2) of
        (Some xs, Some ys) \<Rightarrow>
          (if length xs > 0 \<and> length ys > 0
           then min 20 (int (length (commonInterests B xs ys)) * 5)
           else 0)
      | _ \<Rightarrow> 0)"

definition bio_keywords :: "string list" where
  "bio_keywords = [''travel'', ''music'', ''food'', ''fitness'', ''art'', ''reading'',
               ''movies'', ''hiking'', ''cooking'']"

definition bioScore :: "builtins \<Rightarrow> string option \<Rightarrow> string option \<Rightarrow> int" where
  "bioScore B b1 b2 =
     (if truthy_string b1 \<and> truthy_string b2
      then (let bioMatches = length (filter (\<lambda>keyword.
                    str_includes (toLowerCase B (the b1)) keyword \<and>
                    str_includes (toLowerCase B (the b2)) keyword) bio_keywords)
            in min 10 (int bioMatches * 2))
      else 0)"

text \<open>The value of \<open>score\<close> before the random variation is added: an integer.\<close>

definition scoreBeforeRandom :: "builtins \<Rightarrow> profile \<Rightarrow> profile \<Rightarrow> int" where
  "scoreBeforeRandom B profile1 profile2 =
     50 + ageScore \<bar>age profile1 - age profile2\<bar>
        + locationScore B (location profile1) (location profile2)
        + interestScore B (interests profile1) (interests profile2)
        + bioScore B (bio profile1) (bio profile2)"

text \<open>
  \<open>Math.random() * 10 - 5\<close> for the draw \<open>rnd\<close>: a product and a difference of doubles,
  each rounded to a double.
\<close>

definition jitter :: "builtins \<Rightarrow> real \<Rightarrow> real" where
  "jitter B rnd = fl B (fl B (rnd * 10) - 5)"

text \<open>\<open>score += Math.random() * 10 - 5\<close> is one more sum of doubles.\<close>

definition calculateSimpleCompatibility ::
  "builtins \<Rightarrow> profile \<Rightarrow> profile \<Rightarrow> ai_engine \<Rightarrow> compat_result \<times> ai_engine" where
  "calculateSimpleCompatibility B profile1 profile2 w =
     (let ageDiff = \<bar>age profile1 - age profile2\<bar>;
          (rnd, w') = Math_random w;
          total = fl B (real_of_int (scoreBeforeRandom B profile1 profile2) + jitter B rnd)
      in (\<lparr>score = Num (real_of_int (min 100 (max 0 (Math_round total)))),
           reason = Some ''Compatibility based on age, location, and profile details'',
           highlights = [''Good age compatibility'', ''Similar location''],
           concerns = (if ageDiff > 15 then [''Significant age difference''] else [])\<rparr>,
          w'))"

text \<open>
  An interests list in which no two entries have the same \<open>toLowerCase()\<close>; a missing
  list counts as such.
\<close>

definition caseInsensitiveDistinct :: "builtins \<Rightarrow> string list option \<Rightarrow> bool" where
  "caseInsensitiveDistinct B v =
     (case v of None \<Rightarrow> True | Some xs \<Rightarrow> distinct (map (toLowerCase B) xs))"

subsection \<open>The LLM path\<close>

text \<open>
  The body of the \<open>try\<close> block of \<open>calculateCompatibility\<close>; \<open>Inl\<close> is an exception
  thrown inside it. The prompt is built from the two profiles and sent with the request;
  the answer of the network is the parameter \<open>net\<close>.
\<close>

definition askLLM ::
  "fetch_outcome \<Rightarrow> (string \<Rightarrow> js_error + llm_json) \<Rightarrow> ai_engine
     \<Rightarrow> (js_error + compat_result) \<times> ai_engine" where
  "askLLM net JSON_parse w =
     (case callChatGPT net w of
        (Inl e, w') \<Rightarrow> (Inl e, w')
      | (Inr response, w') \<Rightarrow>
          (case match_object response of
             None \<Rightarrow> (Inl (JsError ''Error'' ''Invalid response format''), w')
           | Some jsonMatch \<Rightarrow>
               (case JSON_parse jsonMatch of
                  Inl e \<Rightarrow> (Inl e, w')
                | Inr result \<Rightarrow>
                    (Inr \<lparr>score = Math_min (Num 100) (Math_max (Num 0) (json_score result)),
                          reason = json_reason result,
                          highlights = (case json_highlights result of None \<Rightarrow> [] | Some h \<Rightarrow> h),
                          concerns = (case json_concerns result of None \<Rightarrow> [] | Some c \<Rightarrow> c)\<rparr>,
                     w'))))"

definition calculateCompatibility ::
  "builtins \<Rightarrow> fetch_outcome \<Rightarrow> (string \<Rightarrow> js_error + llm_json) \<Rightarrow> profile \<Rightarrow> profile
     \<Rightarrow> ai_engine \<Rightarrow> compat_result \<times> ai_engine" where
  "calculateCompatibility B net JSON_parse profile1 profile2 w =
     (let (has, w1) = hasApiKey w in
      if \<not> has then calculateSimpleCompatibility B profile1 profile2 w1
      else (case askLLM net JSON_parse w1 of
              (Inr result, w2) \<Rightarrow> (result, w2)
            | (Inl error, w2) \<Rightarrow> calculateSimpleCompatibility B profile1 profile2 w2))"

section \<open>The IndexedDB layer (js/auth-backend.js, class DatingAppDB)\<close>

text \<open>
  An object store with the in-line key \<open>id\<close> is the list of its records in ascending
  order of that key, which is the order \<open>getAll()\<close> returns them in. Requests are taken
  to succeed.
\<close>

record like =
  like_id :: nat
  fromUserId :: nat
  toUserId :: nat
  like_type :: string
  like_timestamp :: string

text \<open>
  \<open>checkMutualLike\<close> resolves to \<open>like1 && like2\<close>, where each of the two is the
  record that \<open>find\<close> returns or \<open>undefined\<close> (\<open>None\<close>): the value is \<open>like2\<close> when
  \<open>like1\<close> was found and \<open>undefined\<close> otherwise. A record is truthy, \<open>undefined\<close> is
  falsy.
\<close>

definition checkMutualLike :: "like list \<Rightarrow> nat \<Rightarrow> nat \<Rightarrow> like option" where
  "checkMutualLike likes user1Id user2Id =
     (let like1 = find (\<lambda>l. fromUserId l = user1Id \<and> toUserId l = user2Id
                              \<and> like_type l = ''like'') likes;
          like2 = find (\<lambda>l. fromUserId l = user2Id \<and> toUserId l = user1Id
                              \<and> like_type l = ''like'') likes
      in (case like1 of None \<Rightarrow> None | Some l \<Rightarrow> like2))"

definition truthy_object :: "'a option \<Rightarrow> bool" where
  "truthy_object v = (v \<noteq> None)"

text \<open>
  A message; \<open>msg_timestamp\<close> is the time that \<open>new Date(m.timestamp)\<close> reads.
\<close>

record message =
  msg_id :: nat
  matchId :: nat
  senderId :: nat
  msg_text :: string
  msg_timestamp :: int
  read :: bool

text \<open>\<open>store.put(m)\<close> replaces the record of the same key, or adds \<open>m\<close> at its place.\<close>

fun put :: "message \<Rightarrow> message list \<Rightarrow> message list" where
  "put m [] = [m]"
| "put m (x # xs) =
     (if msg_id x = msg_id m then m # xs
      else if msg_id m < msg_id x then m # x # xs
      else x # put m xs)"

definition getMatchMessages :: "message list \<Rightarrow> nat \<Rightarrow> message list" where
  "getMatchMessages store mid =
     sort_key msg_timestamp (filter (\<lambda>m. matchId m = mid) store)"

definition markMessagesAsRead :: "message list \<Rightarrow> nat \<Rightarrow> nat \<Rightarrow> message list" where
  "markMessagesAsRead store mid userId =
     (let messages = getMatchMessages store mid;
          unreadMessages = filter (\<lambda>m. senderId m \<noteq> userId \<and> \<not> read m) messages
      in fold (\<lambda>message st. put (message\<lparr>read := True\<rparr>) st) unreadMessages store)"

section \<open>The REST client (js/auth-backend.js, class BackendAPI)\<close>

record backend_api = browser +
  token :: "string option"
  currentUserId :: "string option"

definition removeItem :: "string \<Rightarrow> (string \<Rightarrow> string option) \<Rightarrow> (string \<Rightarrow> string option)" where
  "removeItem k st = st(k := None)"

text \<open>
  What the network does with a request of \<open>apiCall\<close>: \<open>fetch\<close> rejects; or the response
  is not ok, with its status, its status text and what \<open>response.json()\<close> gives (it
  throws, or the body's \<open>detail\<close>); or the response is ok and \<open>response.json()\<close> throws
  or gives the payload.
\<close>

datatype detail = NoDetail | DetailText string | DetailList "(string option \<times> string option) list"

datatype api_outcome =
    FetchRejected js_error
  | Failed nat string "js_error + detail"
  | Succeeded "js_error + string"

fun string_of_nat :: "nat \<Rightarrow> string" where
  "string_of_nat n =
     (if n < 10 then [''0123456789'' ! n]
      else string_of_nat (n div 10) @ [''0123456789'' ! (n mod 10)])"

declare string_of_nat.simps [simp del]

text \<open>The outer \<open>catch\<close> of \<open>apiCall\<close>: a \<open>TypeError\<close> becomes a network error.\<close>

fun rethrow :: "js_error \<Rightarrow> js_error" where
  "rethrow (JsError nm msg) =
     (if nm = ''TypeError''
      then JsError ''Error'' ''Network error. Please check your connection and API URL.''
      else JsError nm msg)"

definition errorMessageOf :: "nat \<Rightarrow> string \<Rightarrow> js_error + detail \<Rightarrow> string" where
  "errorMessageOf status statusText body =
     (let errorMessage = ''Request failed with status '' @ string_of_nat status;
          fromStatusText = (if statusText \<noteq> [] then statusText else errorMessage)
      in (case body of
            Inl e \<Rightarrow> fromStatusText
          | Inr NoDetail \<Rightarrow> errorMessage
          | Inr (DetailText d) \<Rightarrow> (if d \<noteq> [] then d else errorMessage)
          | Inr (DetailList []) \<Rightarrow> fromStatusText
          | Inr (DetailList ((msg, message) # rest)) \<Rightarrow>
              (if truthy_string msg then the msg
               else if truthy_string message then the message
               else ''Validation error'')))"

definition apiCall ::
  "string \<Rightarrow> string \<Rightarrow> api_outcome \<Rightarrow> backend_api \<Rightarrow> (js_error + string) \<times> backend_api" where
  "apiCall endpoint method net s =
     (case net of
        FetchRejected e \<Rightarrow> (Inl (rethrow e), s)
      | Succeeded (Inl e) \<Rightarrow> (Inl (rethrow e), s)
      | Succeeded (Inr payload) \<Rightarrow> (Inr payload, s)
      | Failed status statusText body \<Rightarrow>
          (let errorMessage = errorMessageOf status statusText body;
               isAuthEndpoint = (endpoint = ''/auth/login'' \<or> endpoint = ''/auth/register'')
           in if status = 401 then
                (if \<not> isAuthEndpoint
                 then (Inl (JsError ''Error'' ''Session expired. Please login again.''),
                       s\<lparr>localStorage :=
                            removeItem ''user_id'' (removeItem ''auth_token'' (localStorage s))\<rparr>)
                 else (Inl (JsError ''Error'' errorMessage), s))
              else if status = 403 then
                (Inl (JsError ''Error'' (''Access denied. '' @ errorMessage)), s)
              else if status = 404 then
                (Inl (JsError ''Error'' (''Resource not found. '' @ errorMessage)), s)
              else if status \<ge> 500 then
                (Inl (JsError ''Error''
                   (''Server error. Please try again later. Details: '' @ errorMessage)), s)
              else (Inl (JsError ''Error'' errorMessage), s)))"

text \<open>
  \<open>logout\<close>: the \<open>finally\<close> block runs after \<open>apiCall\<close> has returned or thrown, and
  the error of \<open>apiCall\<close>, if any, is thrown on to the caller.
\<close>

definition logout :: "api_outcome \<Rightarrow> backend_api \<Rightarrow> (js_error + unit) \<times> backend_api" where
  "logout net s =
     (case apiCall ''/auth/logout'' ''POST'' net s of
        (r, s1) \<Rightarrow>
          ((case r of Inl e \<Rightarrow> Inl e | Inr payload \<Rightarrow> Inr ()),
           s1\<lparr>token := None, currentUserId := None,
              localStorage := removeItem ''user_id'' (removeItem ''auth_token'' (localStorage s1))\<rparr>))"

definition isLoggedIn :: "backend_api \<Rightarrow> bool" where
  "isLoggedIn s = (truthy_string (token s) \<and> truthy_string (currentUserId s))"

section \<open>Concrete inputs\<close>

text \<open>
  One choice of the builtins. The strings of the inputs below are ASCII and the numbers
  that arise from them are integers, so that no result below depends on the choice.
\<close>

definition exact :: rounding where
  "exact = Abs_rounding (\<lambda>x. x)"

definition plain_builtins :: builtins where
  "plain_builtins = \<lparr>unicode_toLowerCase = (\<lambda>s. s), unicode_trim = (\<lambda>s. s),
       round_to_double = exact\<rparr>"

definition half_draws :: "nat \<Rightarrow> real" where
  "half_draws n = 1 / 2"

definition engine_with_key :: ai_engine where
  "engine_with_key = \<lparr>localStorage = Map.empty, apiKey = Some ''sk-test'',
       random_draws = half_draws, draws_taken = 0\<rparr>"

definition engine_without_key :: ai_engine where
  "engine_without_key = \<lparr>localStorage = Map.empty, apiKey = None,
       random_draws = half_draws, draws_taken = 0\<rparr>"

definition alice :: profile where
  "alice = \<lparr>name = ''Alice'', age = 30, occupation = None, bio = None,
       interests = Some [''Music'', ''music''], location = None\<rparr>"

definition bob :: profile where
  "bob = \<lparr>name = ''Bob'', age = 30, occupation = None, bio = None,
       interests = Some [''music''], location = None\<rparr>"

definition carol :: profile where
  "carol = \<lparr>name = ''Carol'', age = 28, occupation = None, bio = None,
       interests = Some [''Hiking'', ''Coffee''], location = Some ''Boston''\<rparr>"

definition dave :: profile where
  "dave = \<lparr>name = ''Dave'', age = 31, occupation = None, bio = None,
       interests = Some [''coffee'', ''Chess''], location = Some ''Chicago''\<rparr>"

definition example_likes :: "like list" where
  "example_likes =
     [\<lparr>like_id = 1, fromUserId = 1, toUserId = 2, like_type = ''like'', like_timestamp = ''t1''\<rparr>,
      \<lparr>like_id = 2, fromUserId = 2, toUserId = 1, like_type = ''pass'', like_timestamp = ''t2''\<rparr>,
      \<lparr>like_id = 3, fromUserId = 2, toUserId = 1, like_type = ''like'', like_timestamp = ''t3''\<rparr>,
      \<lparr>like_id = 4, fromUserId = 2, toUserId = 1, like_type = ''like'', like_timestamp = ''t4''\<rparr>]"

definition erin :: profile where
  "erin = \<lparr>name = ''Erin'', age = 25, occupation = None, bio = None,
       interests = None, location = None\<rparr>"

definition frank :: profile where
  "frank = \<lparr>name = ''Frank'', age = 33, occupation = None, bio = Some [],
       interests = Some [], location = Some []\<rparr>"

definition engine_with_stored_key :: ai_engine where
  "engine_with_stored_key = \<lparr>localStorage = [''openai_api_key'' \<mapsto> ''sk-live''], apiKey = None,
       random_draws = half_draws, draws_taken = 0\<rparr>"

definition example_messages :: "message list" where
  "example_messages =
     [\<lparr>msg_id = 1, matchId = 7, senderId = 2, msg_text = ''hi'', msg_timestamp = 30, read = False\<rparr>,
      \<lparr>msg_id = 2, matchId = 7, senderId = 1, msg_text = ''hello'', msg_timestamp = 20, read = False\<rparr>,
      \<lparr>msg_id = 3, matchId = 8, senderId = 2, msg_text = ''hey'', msg_timestamp = 10, read = False\<rparr>,
      \<lparr>msg_id = 5, matchId = 7, senderId = 2, msg_text = ''you there?'', msg_timestamp = 5, read = False\<rparr>]"

text \<open>
  Two results of \<open>JSON.parse\<close>: an object without a \<open>score\<close> property, as for the
  text \<open>{}\<close>, and an object whose \<open>score\<close> is the number 150. And a parser that throws.
\<close>

definition parse_without_score :: "string \<Rightarrow> js_error + llm_json" where
  "parse_without_score js = Inr \<lparr>json_score = NaN, json_reason = None,
       json_highlights = None, json_concerns = None\<rparr>"

definition parse_with_score :: "string \<Rightarrow> js_error + llm_json" where
  "parse_with_score js = Inr \<lparr>json_score = Num 150, json_reason = Some ''great'',
       json_highlights = None, json_concerns = None\<rparr>"

definition parse_fails :: "string \<Rightarrow> js_error + llm_json" where
  "parse_fails js = Inl (JsError ''SyntaxError'' ''Unexpected token'')"

section \<open>Properties of the matching engine\<close>

text \<open>What the type of roundings gives: monotonicity, and exactness on integers.\<close>

lemma fl_mono: "x \<le> y \<Longrightarrow> fl B x \<le> fl B y"
  using Rep_rounding [of "round_to_double B"] by (simp add: fl_def mono_def)

lemma fl_of_int: "\<bar>n\<bar> \<le> 2 ^ 53 \<Longrightarrow> fl B (real_of_int n) = real_of_int n"
  using Rep_rounding [of "round_to_double B"] by (simp add: fl_def)

lemma fl_numeral: "(numeral k :: int) \<le> 2 ^ 53 \<Longrightarrow> fl B (numeral k) = numeral k"
  using fl_of_int [of "numeral k" B] by simp

lemma fl_zero: "fl B 0 = 0"
  using fl_of_int [of 0 B] by simp

lemmas heuristic_defs = calculateSimpleCompatibility_def Math_random_def scoreBeforeRandom_def
  ageScore_def locationScore_def interestScore_def bioScore_def commonInterests_def
  truthy_string_def Math_round_def toLowerCase_def toLowerCase_char_def is_ascii_def
  jitter_def fl_numeral fl_zero

lemmas llm_defs = calculateCompatibility_def hasApiKey_def getApiKey_def askLLM_def
  callChatGPT_def match_object_def

text \<open>
  The fallback returns an integer between 0 and 100, whatever the profiles, the draw and
  the builtins are.
\<close>

lemma simple_score_range:
  "\<exists>n::int. score (fst (calculateSimpleCompatibility B p1 p2 w)) = Num (real_of_int n)
      \<and> 0 \<le> n \<and> n \<le> 100"
  by (simp add: calculateSimpleCompatibility_def Math_random_def Let_def split_def)

lemma simple_depends_on_draw:
  "random_draws w' (draws_taken w') = random_draws w (draws_taken w) \<Longrightarrow>
   fst (calculateSimpleCompatibility B p1 p2 w') = fst (calculateSimpleCompatibility B p1 p2 w)"
  by (simp add: calculateSimpleCompatibility_def Math_random_def Let_def split_def)

lemma getApiKey_draws:
  "random_draws (snd (getApiKey w)) = random_draws w"
  "draws_taken (snd (getApiKey w)) = draws_taken w"
  by (simp_all add: getApiKey_def Let_def)

lemma hasApiKey_state: "snd (hasApiKey w) = snd (getApiKey w)"
  by (simp add: hasApiKey_def split_def Let_def)

lemma callChatGPT_state: "snd (callChatGPT net w) = snd (getApiKey w)"
  by (simp add: callChatGPT_def split_def Let_def split: fetch_outcome.splits sum.splits)

lemma askLLM_state: "snd (askLLM net JSON_parse w) = snd (getApiKey w)"
  using callChatGPT_state [of net w]
  by (auto simp: askLLM_def split: prod.splits sum.splits option.splits)

text \<open>
  The result of \<open>calculateCompatibility\<close> by cases: the fallback reads only the random
  draw, which neither \<open>hasApiKey\<close> nor the LLM call consumes.
\<close>

lemma calculateCompatibility_cases:
  "fst (calculateCompatibility B net JSON_parse p1 p2 w) =
     (if \<not> fst (hasApiKey w) then fst (calculateSimpleCompatibility B p1 p2 w)
      else (case fst (askLLM net JSON_parse (snd (hasApiKey w))) of
              Inr result \<Rightarrow> result
            | Inl e \<Rightarrow> fst (calculateSimpleCompatibility B p1 p2 w)))"
proof -
  have a: "fst (calculateSimpleCompatibility B p1 p2 (snd (hasApiKey w)))
        = fst (calculateSimpleCompatibility B p1 p2 w)"
    by (rule simple_depends_on_draw) (simp add: hasApiKey_state getApiKey_draws)
  have b: "fst (calculateSimpleCompatibility B p1 p2
                  (snd (askLLM net JSON_parse (snd (hasApiKey w)))))
        = fst (calculateSimpleCompatibility B p1 p2 w)"
    by (rule simple_depends_on_draw) (simp add: askLLM_state hasApiKey_state getApiKey_draws)
  show ?thesis
    using a b
    by (auto simp: calculateCompatibility_def split_def Let_def split: sum.splits)
qed

lemma askLLM_fst:
  "fst (askLLM net JSON_parse w) =
     (case fst (callChatGPT net w) of
        Inl e \<Rightarrow> Inl e
      | Inr response \<Rightarrow>
          (case match_object response of
             None \<Rightarrow> Inl (JsError ''Error'' ''Invalid response format'')
           | Some jsonMatch \<Rightarrow>
               (case JSON_parse jsonMatch of
                  Inl e \<Rightarrow> Inl e
                | Inr result \<Rightarrow>
                    Inr \<lparr>score = Math_min (Num 100) (Math_max (Num 0) (json_score result)),
                         reason = json_reason result,
                         highlights = (case json_highlights result of None \<Rightarrow> [] | Some h \<Rightarrow> h),
                         concerns = (case json_concerns result of None \<Rightarrow> [] | Some c \<Rightarrow> c)\<rparr>)))"
  by (simp add: askLLM_def split: prod.splits sum.splits option.splits)

lemma callChatGPT_needs_key:
  "fst (callChatGPT net (snd (hasApiKey w))) = Inr response \<Longrightarrow> fst (hasApiKey w)"
  by (auto simp: callChatGPT_def hasApiKey_def getApiKey_def Let_def split_def
           split: if_splits)

text \<open>
  On the LLM path a numeric \<open>score\<close> of the parsed object is clamped into \<open>[0, 100]\<close>.
\<close>

lemma llm_score_clamped:
  assumes "fst (callChatGPT net (snd (hasApiKey w))) = Inr response"
    and "match_object response = Some js"
    and "JSON_parse js = Inr result"
    and "json_score result = Num v"
  shows "score (fst (calculateCompatibility B net JSON_parse p1 p2 w)) = Num (min 100 (max 0 v))"
proof -
  from assms(1) have "fst (hasApiKey w)"
    by (rule callChatGPT_needs_key)
  with assms show ?thesis
    by (simp add: calculateCompatibility_cases askLLM_fst)
qed

text \<open>
  C1: every compatibility calculation returns a score in \<open>[0, 100]\<close>. The code breaks
  this on the LLM path. For the answer \<open>{}\<close> the match succeeds, \<open>JSON.parse\<close> returns an
  object without \<open>score\<close>, \<open>Math.max(0, undefined)\<close> is \<open>NaN\<close>, \<open>Math.min(100, NaN)\<close> is
  \<open>NaN\<close>, and \<open>NaN\<close> is the score returned, where the fallback on the same profiles
  returns 75.
\<close>

theorem C1_llm_score_nan:
  "score (fst (calculateCompatibility B (Ok (Inr ''{}'')) parse_without_score alice bob
                 engine_with_key)) = NaN
   \<and> score (fst (calculateSimpleCompatibility B alice bob engine_with_key)) = Num 75"
  by (simp add: llm_defs heuristic_defs parse_without_score_def alice_def bob_def
      engine_with_key_def half_draws_def)

text \<open>
  C2: \<open>calculateCompatibility\<close> returns the result of \<open>calculateSimpleCompatibility\<close> for
  the same profiles and the same random draw when no API key is set, when the LLM call
  throws, when the answer holds no JSON object, and when parsing that object throws. The
  model returns a result on each of these paths: no error reaches the caller.
\<close>

theorem C2_fallback:
  assumes "\<not> fst (hasApiKey w)
     \<or> (\<exists>e. fst (callChatGPT net (snd (hasApiKey w))) = Inl e)
     \<or> (\<exists>response. fst (callChatGPT net (snd (hasApiKey w))) = Inr response
           \<and> (match_object response = None
               \<or> (\<exists>js e. match_object response = Some js \<and> JSON_parse js = Inl e)))"
  shows "fst (calculateCompatibility B net JSON_parse p1 p2 w)
           = fst (calculateSimpleCompatibility B p1 p2 w)"
  using assms
  by (auto simp: calculateCompatibility_cases askLLM_fst split: sum.splits option.splits)

theorem C2_fallback_witness:
  "\<not> fst (hasApiKey engine_without_key)
   \<and> fst (calculateCompatibility plain_builtins (Ok (Inr ''{}'')) parse_with_score alice bob engine_without_key)
       = fst (calculateSimpleCompatibility plain_builtins alice bob engine_without_key)
   \<and> fst (callChatGPT (Rejected (JsError ''TypeError'' ''Failed to fetch''))
            (snd (hasApiKey engine_with_key))) = Inl (JsError ''TypeError'' ''Failed to fetch'')
   \<and> fst (calculateCompatibility plain_builtins (Rejected (JsError ''TypeError'' ''Failed to fetch''))
            parse_with_score alice bob engine_with_key)
       = fst (calculateSimpleCompatibility plain_builtins alice bob engine_with_key)
   \<and> fst (callChatGPT (Ok (Inr ''I cannot answer'')) (snd (hasApiKey engine_with_key)))
       = Inr ''I cannot answer''
   \<and> match_object ''I cannot answer'' = None
   \<and> fst (calculateCompatibility plain_builtins (Ok (Inr ''I cannot answer'')) parse_with_score alice bob
            engine_with_key)
       = fst (calculateSimpleCompatibility plain_builtins alice bob engine_with_key)
   \<and> fst (callChatGPT (Ok (Inr ''{score: high}'')) (snd (hasApiKey engine_with_key)))
       = Inr ''{score: high}''
   \<and> match_object ''{score: high}'' = Some ''{score: high}''
   \<and> parse_fails ''{score: high}'' = Inl (JsError ''SyntaxError'' ''Unexpected token'')
   \<and> fst (calculateCompatibility plain_builtins (Ok (Inr ''{score: high}'')) parse_fails alice bob
            engine_with_key)
       = fst (calculateSimpleCompatibility plain_builtins alice bob engine_with_key)"
proof -
  have k0: "\<not> fst (hasApiKey engine_without_key)"
    by (simp add: hasApiKey_def getApiKey_def truthy_string_def engine_without_key_def)
  have c1: "fst (callChatGPT (Rejected (JsError ''TypeError'' ''Failed to fetch''))
            (snd (hasApiKey engine_with_key))) = Inl (JsError ''TypeError'' ''Failed to fetch'')"
    by (simp add: callChatGPT_def hasApiKey_def getApiKey_def truthy_string_def
        engine_with_key_def)
  have c2: "fst (callChatGPT (Ok (Inr ''I cannot answer'')) (snd (hasApiKey engine_with_key)))
       = Inr ''I cannot answer''"
    by (simp add: callChatGPT_def hasApiKey_def getApiKey_def truthy_string_def
        engine_with_key_def)
  have m2: "match_object ''I cannot answer'' = None"
    by (simp add: match_object_def)
  have c3: "fst (callChatGPT (Ok (Inr ''{score: high}'')) (snd (hasApiKey engine_with_key)))
       = Inr ''{score: high}''"
    by (simp add: callChatGPT_def hasApiKey_def getApiKey_def truthy_string_def
        engine_with_key_def)
  have m3: "match_object ''{score: high}'' = Some ''{score: high}''"
    by (simp add: match_object_def)
  have p3: "parse_fails ''{score: high}'' = Inl (JsError ''SyntaxError'' ''Unexpected token'')"
    by (simp add: parse_fails_def)
  have r0: "fst (calculateCompatibility plain_builtins (Ok (Inr ''{}'')) parse_with_score alice bob
                  engine_without_key)
       = fst (calculateSimpleCompatibility plain_builtins alice bob engine_without_key)"
    using k0 by (intro C2_fallback) blast
  have r1: "fst (calculateCompatibility plain_builtins (Rejected (JsError ''TypeError'' ''Failed to fetch''))
            parse_with_score alice bob engine_with_key)
       = fst (calculateSimpleCompatibility plain_builtins alice bob engine_with_key)"
    using c1 by (intro C2_fallback) blast
  have r2: "fst (calculateCompatibility plain_builtins (Ok (Inr ''I cannot answer'')) parse_with_score alice bob
            engine_with_key)
       = fst (calculateSimpleCompatibility plain_builtins alice bob engine_with_key)"
    using c2 m2 by (intro C2_fallback) blast
  have r3: "fst (calculateCompatibility plain_builtins (Ok (Inr ''{score: high}'')) parse_fails alice bob
            engine_with_key)
       = fst (calculateSimpleCompatibility plain_builtins alice bob engine_with_key)"
    using c3 m3 p3 by (intro C2_fallback) blast
  from k0 c1 c2 m2 c3 m3 p3 r0 r1 r2 r3 show ?thesis by blast
qed


text \<open>
  C4, as stated, fails: \<open>commonInterests\<close> counts the entries of the first profile's list
  that match the second's, so an entry repeated in another letter case counts twice from
  one side and once from the other. With the draw 1/2, \<open>[Music, music]\<close> against
  \<open>[music]\<close> scores 75, and \<open>[music]\<close> against \<open>[Music, music]\<close> scores 70.
\<close>

theorem C4_asymmetric:
  "score (fst (calculateSimpleCompatibility plain_builtins alice bob engine_with_key)) = Num 75
   \<and> score (fst (calculateSimpleCompatibility plain_builtins bob alice engine_with_key)) = Num 70"
  by (simp add: heuristic_defs alice_def bob_def engine_with_key_def half_draws_def)

text \<open>Each block of the heuristic but the interests block is symmetric in the two profiles.\<close>

lemma ageScore_commute: "ageScore \<bar>a - b\<bar> = ageScore \<bar>b - a\<bar>"
  by (simp add: abs_minus_commute)

lemma locationScore_commute: "locationScore B l1 l2 = locationScore B l2 l1"
  by (auto simp: locationScore_def Let_def)

lemma bioScore_commute: "bioScore B b1 b2 = bioScore B b2 b1"
proof -
  have "(\<lambda>keyword. str_includes (toLowerCase B (the b1)) keyword \<and>
                    str_includes (toLowerCase B (the b2)) keyword)
      = (\<lambda>keyword. str_includes (toLowerCase B (the b2)) keyword \<and>
                    str_includes (toLowerCase B (the b1)) keyword)"
    by auto
  then show ?thesis
    by (simp add: bioScore_def Let_def conj_commute)
qed

lemma commonInterests_card:
  assumes "distinct (map (toLowerCase B) xs)"
  shows "length (commonInterests B xs ys) = card (toLowerCase B ` set xs \<inter> toLowerCase B ` set ys)"
proof -
  let ?Q = "\<lambda>a. a \<in> toLowerCase B ` set ys"
  have pt: "(\<exists>j \<in> set ys. toLowerCase B j = toLowerCase B x) = (toLowerCase B x \<in> toLowerCase B ` set ys)"
    for x
    by (metis image_iff)
  have "commonInterests B xs ys = filter (?Q \<circ> toLowerCase B) xs"
    by (simp add: commonInterests_def list_ex_iff pt comp_def)
  then have "length (commonInterests B xs ys) = length (filter ?Q (map (toLowerCase B) xs))"
    by (simp add: filter_map)
  also have "\<dots> = card (set (filter ?Q (map (toLowerCase B) xs)))"
    using distinct_filter [OF assms] by (rule distinct_card [symmetric])
  also have "set (filter ?Q (map (toLowerCase B) xs)) = toLowerCase B ` set xs \<inter> toLowerCase B ` set ys"
    by auto
  finally show ?thesis .
qed

lemma interestScore_commute:
  assumes "caseInsensitiveDistinct B i1" and "caseInsensitiveDistinct B i2"
  shows "interestScore B i1 i2 = interestScore B i2 i1"
proof (cases i1)
  case None
  then show ?thesis by (simp add: interestScore_def split: option.splits)
next
  case (Some xs)
  note s1 = this
  show ?thesis
  proof (cases i2)
    case None
    with s1 show ?thesis by (simp add: interestScore_def)
  next
    case (Some ys)
    from assms s1 Some have "length (commonInterests B xs ys) = length (commonInterests B ys xs)"
      by (simp add: caseInsensitiveDistinct_def commonInterests_card Int_commute)
    with s1 Some show ?thesis
      by (simp add: interestScore_def conj_commute)
  qed
qed

text \<open>
  C4, amended: for a fixed random draw, \<open>calculateSimpleCompatibility\<close> returns the same
  result for \<open>(p1, p2)\<close> and \<open>(p2, p1)\<close>, provided neither interests list holds two
  entries that are equal up to letter case, that is, with the same \<open>toLowerCase()\<close>.
\<close>

theorem C4_symmetric:
  assumes "caseInsensitiveDistinct B (interests p1)" and "caseInsensitiveDistinct B (interests p2)"
  shows "fst (calculateSimpleCompatibility B p1 p2 w) = fst (calculateSimpleCompatibility B p2 p1 w)"
proof -
  have "scoreBeforeRandom B p1 p2 = scoreBeforeRandom B p2 p1"
    using interestScore_commute [OF assms]
      locationScore_commute [of B "location p1" "location p2"]
      bioScore_commute [of B "bio p1" "bio p2"]
      ageScore_commute [of "age p1" "age p2"]
    by (simp add: scoreBeforeRandom_def)
  then show ?thesis
    by (simp add: calculateSimpleCompatibility_def Let_def split_def abs_minus_commute)
qed

theorem C4_symmetric_witness:
  "caseInsensitiveDistinct plain_builtins (interests carol) \<and> caseInsensitiveDistinct plain_builtins (interests dave)
   \<and> fst (calculateSimpleCompatibility plain_builtins carol dave engine_with_key)
       = fst (calculateSimpleCompatibility plain_builtins dave carol engine_with_key)"
proof -
  have a: "caseInsensitiveDistinct plain_builtins (interests carol)"
    by (simp add: caseInsensitiveDistinct_def carol_def toLowerCase_def toLowerCase_char_def
        is_ascii_def)
  have b: "caseInsensitiveDistinct plain_builtins (interests dave)"
    by (simp add: caseInsensitiveDistinct_def dave_def toLowerCase_def toLowerCase_char_def
        is_ascii_def)
  from C4_symmetric [OF a b, of engine_with_key] a b show ?thesis by simp
qed

text \<open>
  C5: two locations without a comma get the bonus of 10. \<open>split(',')[1]\<close> is \<open>undefined\<close>
  for both, \<open>undefined?.trim()\<close> is \<open>undefined\<close>, and \<open>undefined === undefined\<close>
  holds: Boston and Chicago score 80 with the draw 1/2, and 70 once one location is
  removed.
\<close>

theorem C5_unrelated_cities_bonus:
  "locationScore B (location carol) (location dave) = 10
   \<and> region B (toLowerCase B ''Boston'') = None \<and> region B (toLowerCase B ''Chicago'') = None
   \<and> score (fst (calculateSimpleCompatibility B carol dave engine_with_key)) = Num 80
   \<and> score (fst (calculateSimpleCompatibility B (carol\<lparr>location := None\<rparr>) dave engine_with_key))
       = Num 70"
  by (simp add: heuristic_defs region_def carol_def dave_def engine_with_key_def half_draws_def)

text \<open>
  C6: the interests block never adds more than 20; and for two non-empty interests lists
  it adds \<open>min(20, 5 * k)\<close>, where \<open>k\<close> counts the entries of the first list whose
  \<open>toLowerCase()\<close> is that of some entry of the second. What the block adds is the difference
  between the score before the random variation and that score with the first profile's
  interests removed.
\<close>

theorem C6_interest_bonus:
  "interestScore B (interests p1) (interests p2) \<le> 20
   \<and> (interests p1 = Some xs \<and> xs \<noteq> [] \<and> interests p2 = Some ys \<and> ys \<noteq> [] \<longrightarrow>
        scoreBeforeRandom B p1 p2 - scoreBeforeRandom B (p1\<lparr>interests := None\<rparr>) p2
          = min 20 (5 * int (length (filter (\<lambda>i. \<exists>j \<in> set ys. toLowerCase B j = toLowerCase B i) xs))))"
  by (auto simp: interestScore_def scoreBeforeRandom_def commonInterests_def list_ex_iff
      mult.commute split: option.splits)

theorem C6_interest_bonus_witness:
  "interests carol = Some [''Hiking'', ''Coffee''] \<and> [''Hiking'', ''Coffee''] \<noteq> []
   \<and> interests dave = Some [''coffee'', ''Chess''] \<and> [''coffee'', ''Chess''] \<noteq> []
   \<and> interestScore plain_builtins (interests carol) (interests dave) \<le> 20
   \<and> scoreBeforeRandom plain_builtins carol dave - scoreBeforeRandom plain_builtins (carol\<lparr>interests := None\<rparr>) dave = 5"
  using C6_interest_bonus [of plain_builtins carol dave "[''Hiking'', ''Coffee'']" "[''coffee'', ''Chess'']"]
  by (simp add: carol_def dave_def toLowerCase_def toLowerCase_char_def is_ascii_def)

lemma ageScore_antitone: "d \<le> d' \<Longrightarrow> ageScore d' \<le> ageScore d"
  by (simp add: ageScore_def)

lemma clamp_round_mono:
  "x \<le> y \<Longrightarrow> min 100 (max 0 (Math_round x)) \<le> min 100 (max 0 (Math_round y))"
proof -
  assume "x \<le> y"
  then have "Math_round x \<le> Math_round y"
    by (simp add: Math_round_def floor_mono)
  then show ?thesis by simp
qed

text \<open>
  C7: the score starts from 50 and the age bands are antitone in the age gap. For two
  pairs of profiles that differ only in their ages, and the same random draw, the pair
  with the smaller age gap scores at least as high. For two profiles without location,
  interests and bio, the score is \<open>50 + ageBand + jitter\<close>, the sum and the jitter
  \<open>Math.random() * 10 - 5\<close> computed in doubles as the code computes them, then rounded
  by \<open>Math.round\<close> and clamped into \<open>[0, 100]\<close>; the band of the age gap \<open>d\<close> is 15 for
  \<open>d \<le> 5\<close>, 10 for \<open>d \<le> 10\<close>, 5 for \<open>d \<le> 15\<close>, and -10 beyond.
\<close>

theorem C7_age_bands:
  "(\<bar>a1 - a2\<bar> \<le> \<bar>b1 - b2\<bar> \<longrightarrow>
      (\<exists>m n. score (fst (calculateSimpleCompatibility B (p1\<lparr>age := a1\<rparr>) (p2\<lparr>age := a2\<rparr>) w))
                = Num (real_of_int m)
            \<and> score (fst (calculateSimpleCompatibility B (p1\<lparr>age := b1\<rparr>) (p2\<lparr>age := b2\<rparr>) w))
                = Num (real_of_int n)
            \<and> n \<le> m))
   \<and> (\<not> truthy_string (location p1) \<and> \<not> truthy_string (location p2)
        \<and> (interests p1 = None \<or> interests p1 = Some [])
        \<and> (interests p2 = None \<or> interests p2 = Some [])
        \<and> \<not> truthy_string (bio p1) \<and> \<not> truthy_string (bio p2) \<longrightarrow>
      score (fst (calculateSimpleCompatibility B p1 p2 w))
        = Num (real_of_int (min 100 (max 0 (Math_round
            (fl B (real_of_int (50 + ageScore \<bar>age p1 - age p2\<bar>)
                    + jitter B (fst (Math_random w)))))))))
   \<and> (d \<le> 5 \<longrightarrow> ageScore d = 15)
   \<and> (5 < d \<and> d \<le> 10 \<longrightarrow> ageScore d = 10)
   \<and> (10 < d \<and> d \<le> 15 \<longrightarrow> ageScore d = 5)
   \<and> (15 < d \<longrightarrow> ageScore d = - 10)"
proof (intro conjI impI)
  assume gap: "\<bar>a1 - a2\<bar> \<le> \<bar>b1 - b2\<bar>"
  let ?j = "jitter B (random_draws w (draws_taken w))"
  let ?sa = "scoreBeforeRandom B (p1\<lparr>age := a1\<rparr>) (p2\<lparr>age := a2\<rparr>)"
  let ?sb = "scoreBeforeRandom B (p1\<lparr>age := b1\<rparr>) (p2\<lparr>age := b2\<rparr>)"
  from ageScore_antitone [OF gap] have "?sb \<le> ?sa"
    by (simp add: scoreBeforeRandom_def)
  then have "real_of_int ?sb + ?j \<le> real_of_int ?sa + ?j" by simp
  then have "fl B (real_of_int ?sb + ?j) \<le> fl B (real_of_int ?sa + ?j)"
    by (rule fl_mono)
  from clamp_round_mono [OF this]
  show "\<exists>m n. score (fst (calculateSimpleCompatibility B (p1\<lparr>age := a1\<rparr>) (p2\<lparr>age := a2\<rparr>) w))
                = Num (real_of_int m)
            \<and> score (fst (calculateSimpleCompatibility B (p1\<lparr>age := b1\<rparr>) (p2\<lparr>age := b2\<rparr>) w))
                = Num (real_of_int n)
            \<and> n \<le> m"
    by (simp add: calculateSimpleCompatibility_def Math_random_def Let_def split_def)
next
  assume none: "\<not> truthy_string (location p1) \<and> \<not> truthy_string (location p2)
        \<and> (interests p1 = None \<or> interests p1 = Some [])
        \<and> (interests p2 = None \<or> interests p2 = Some [])
        \<and> \<not> truthy_string (bio p1) \<and> \<not> truthy_string (bio p2)"
  then have "scoreBeforeRandom B p1 p2 = 50 + ageScore \<bar>age p1 - age p2\<bar>"
    by (auto simp: scoreBeforeRandom_def locationScore_def interestScore_def bioScore_def)
  then show "score (fst (calculateSimpleCompatibility B p1 p2 w))
        = Num (real_of_int (min 100 (max 0 (Math_round
            (fl B (real_of_int (50 + ageScore \<bar>age p1 - age p2\<bar>)
                    + jitter B (fst (Math_random w))))))))"
    by (simp add: calculateSimpleCompatibility_def Math_random_def Let_def split_def)
qed (simp_all add: ageScore_def)

theorem C7_age_bands_witness:
  "\<bar>(25::int) - 33\<bar> \<le> \<bar>20 - 40\<bar>
   \<and> score (fst (calculateSimpleCompatibility plain_builtins (erin\<lparr>age := 25\<rparr>)
                   (frank\<lparr>age := 33\<rparr>) engine_with_key)) = Num 60
   \<and> score (fst (calculateSimpleCompatibility plain_builtins (erin\<lparr>age := 20\<rparr>)
                   (frank\<lparr>age := 40\<rparr>) engine_with_key)) = Num 40
   \<and> \<not> truthy_string (location erin) \<and> \<not> truthy_string (location frank)
   \<and> interests erin = None \<and> interests frank = Some []
   \<and> \<not> truthy_string (bio erin) \<and> \<not> truthy_string (bio frank)
   \<and> score (fst (calculateSimpleCompatibility plain_builtins erin frank engine_with_key)) = Num 60
   \<and> ageScore 3 = 15 \<and> ageScore 8 = 10 \<and> ageScore 12 = 5 \<and> ageScore 20 = - 10"
  using C7_age_bands [of 25 33 20 40 plain_builtins erin frank engine_with_key 3]
    C7_age_bands [of 25 33 20 40 plain_builtins erin frank engine_with_key 8]
    C7_age_bands [of 25 33 20 40 plain_builtins erin frank engine_with_key 12]
    C7_age_bands [of 25 33 20 40 plain_builtins erin frank engine_with_key 20]
  by (simp add: heuristic_defs erin_def frank_def engine_with_key_def half_draws_def)

text \<open>
  C8: the result of \<open>calculateSimpleCompatibility\<close> is a function of the two profiles and
  of the random draw alone: two runs that get the same profiles and the same draw return
  the same result, whatever \<open>localStorage\<close> and the \<open>apiKey\<close> field hold. The only change
  of state is that one random draw has been taken; \<open>localStorage\<close> and \<open>apiKey\<close> are as
  before.
\<close>

theorem C8_stateless:
  "(random_draws w1 (draws_taken w1) = random_draws w2 (draws_taken w2) \<longrightarrow>
      fst (calculateSimpleCompatibility B p1 p2 w1) = fst (calculateSimpleCompatibility B p1 p2 w2))
   \<and> snd (calculateSimpleCompatibility B p1 p2 w1) = w1\<lparr>draws_taken := Suc (draws_taken w1)\<rparr>
   \<and> localStorage (snd (calculateSimpleCompatibility B p1 p2 w1)) = localStorage w1
   \<and> apiKey (snd (calculateSimpleCompatibility B p1 p2 w1)) = apiKey w1"
  by (simp add: calculateSimpleCompatibility_def Math_random_def Let_def split_def)

theorem C8_stateless_witness:
  "random_draws engine_with_key (draws_taken engine_with_key)
     = random_draws engine_with_stored_key (draws_taken engine_with_stored_key)
   \<and> fst (calculateSimpleCompatibility plain_builtins alice bob engine_with_key)
     = fst (calculateSimpleCompatibility plain_builtins alice bob engine_with_stored_key)
   \<and> localStorage (snd (calculateSimpleCompatibility plain_builtins alice bob engine_with_stored_key))
        ''openai_api_key'' = Some ''sk-live''
   \<and> apiKey (snd (calculateSimpleCompatibility plain_builtins alice bob engine_with_stored_key)) = None"
  using C8_stateless [of engine_with_key engine_with_stored_key plain_builtins alice bob]
    C8_stateless [of engine_with_stored_key engine_with_stored_key plain_builtins alice bob]
  by (simp add: engine_with_key_def engine_with_stored_key_def)

section \<open>Properties of the IndexedDB layer\<close>

lemma find_truthy: "truthy_object (find P xs) \<longleftrightarrow> (\<exists>x \<in> set xs. P x)"
  by (auto simp: truthy_object_def find_None_iff)

text \<open>
  C3, as stated, fails: \<open>checkMutualLike\<close> resolves to \<open>like1 && like2\<close>, a like record
  or \<open>undefined\<close>, never to \<open>true\<close>; with a mutual like the call for \<open>(1, 2)\<close> resolves to
  a record from 2 to 1, and the call for \<open>(2, 1)\<close> to the record from 1 to 2.
\<close>

theorem C3_values_differ:
  "checkMutualLike example_likes 1 2 \<noteq> checkMutualLike example_likes 2 1"
  by (simp add: checkMutualLike_def example_likes_def)

text \<open>
  C3, amended: \<open>checkMutualLike(u1, u2)\<close> resolves to a record \<open>l\<close> if and only if the
  store holds a record from \<open>u1\<close> to \<open>u2\<close> of type like and \<open>l\<close> is the first record of
  the store from \<open>u2\<close> to \<open>u1\<close> of type like; otherwise it resolves to \<open>undefined\<close>. So
  the result is truthy if and only if the store holds a like record in each direction,
  and its truthiness is the same for \<open>(u1, u2)\<close> and \<open>(u2, u1)\<close>.
\<close>

theorem C3_mutual_like:
  "(checkMutualLike likes u1 u2 = Some l \<longleftrightarrow>
      (\<exists>x \<in> set likes. fromUserId x = u1 \<and> toUserId x = u2 \<and> like_type x = ''like'')
    \<and> (\<exists>i < length likes. likes ! i = l
          \<and> fromUserId l = u2 \<and> toUserId l = u1 \<and> like_type l = ''like''
          \<and> (\<forall>j < i. \<not> (fromUserId (likes ! j) = u2 \<and> toUserId (likes ! j) = u1
                          \<and> like_type (likes ! j) = ''like''))))
   \<and> (truthy_object (checkMutualLike likes u1 u2) \<longleftrightarrow>
      (\<exists>x \<in> set likes. fromUserId x = u1 \<and> toUserId x = u2 \<and> like_type x = ''like'')
    \<and> (\<exists>x \<in> set likes. fromUserId x = u2 \<and> toUserId x = u1 \<and> like_type x = ''like''))
   \<and> truthy_object (checkMutualLike likes u1 u2) = truthy_object (checkMutualLike likes u2 u1)"
proof -
  let ?P = "\<lambda>a b x. fromUserId x = a \<and> toUserId x = b \<and> like_type x = ''like''"
  have v: "checkMutualLike likes a b
         = (if \<exists>x \<in> set likes. ?P a b x then find (?P b a) likes else None)" for a b
  proof (cases "find (?P a b) likes")
    case None
    then have ne: "\<not> (\<exists>x \<in> set likes. ?P a b x)"
      unfolding find_None_iff by blast
    from None have c: "checkMutualLike likes a b = None"
      by (simp add: checkMutualLike_def)
    show ?thesis
      unfolding c if_not_P [OF ne] ..
  next
    case (Some y)
    then have "find (?P a b) likes \<noteq> None" by simp
    then have ex: "\<exists>x \<in> set likes. ?P a b x"
      unfolding find_None_iff by blast
    from Some have c: "checkMutualLike likes a b = find (?P b a) likes"
      by (simp add: checkMutualLike_def)
    show ?thesis
      unfolding c if_P [OF ex] ..
  qed
  have t: "truthy_object (checkMutualLike likes a b)
        \<longleftrightarrow> (\<exists>x \<in> set likes. ?P a b x) \<and> (\<exists>x \<in> set likes. ?P b a x)" for a b
    by (simp add: v find_truthy) (simp add: truthy_object_def)
  have "checkMutualLike likes u1 u2 = Some l \<longleftrightarrow>
      (\<exists>x \<in> set likes. ?P u1 u2 x)
    \<and> (\<exists>i < length likes. likes ! i = l \<and> ?P u2 u1 l
          \<and> (\<forall>j < i. \<not> ?P u2 u1 (likes ! j)))"
    unfolding v by (auto simp: find_Some_iff)
  moreover note t [of u1 u2]
  moreover have "truthy_object (checkMutualLike likes u1 u2)
      = truthy_object (checkMutualLike likes u2 u1)"
    unfolding t by blast
  ultimately show ?thesis by blast
qed

theorem C3_mutual_like_witness:
  "checkMutualLike example_likes 1 2
     = Some \<lparr>like_id = 3, fromUserId = 2, toUserId = 1, like_type = ''like'',
             like_timestamp = ''t3''\<rparr>
   \<and> truthy_object (checkMutualLike example_likes 1 2)
   \<and> truthy_object (checkMutualLike example_likes 2 1)
   \<and> \<not> truthy_object (checkMutualLike example_likes 1 3)"
  using C3_mutual_like [of example_likes 1 2
      "\<lparr>like_id = 3, fromUserId = 2, toUserId = 1, like_type = ''like'',
        like_timestamp = ''t3''\<rparr>"]
    C3_mutual_like [of example_likes 1 3 undefined]
  by (simp add: example_likes_def checkMutualLike_def truthy_object_def)

text \<open>
  The records of a store have distinct keys, so a \<open>put\<close> of a record read from the store
  replaces that record alone.
\<close>

lemma put_replace:
  assumes "sorted_wrt (<) (map msg_id s)" and "x \<in> set s" and "msg_id m = msg_id x"
  shows "put m s = map (\<lambda>y. if msg_id y = msg_id x then m else y) s"
  using assms
proof (induction s)
  case Nil
  then show ?case by simp
next
  case (Cons y ys)
  show ?case
  proof (cases "msg_id y = msg_id x")
    case True
    from Cons.prems(1) have "\<forall>z \<in> set ys. msg_id z \<noteq> msg_id x"
      using True by auto
    then have "map (\<lambda>y. if msg_id y = msg_id x then m else y) ys = ys"
      by (simp add: map_idI)
    with True Cons.prems(3) show ?thesis by simp
  next
    case False
    with Cons.prems(2) have x: "x \<in> set ys" by auto
    from Cons.prems(1) x have "msg_id y < msg_id x" by auto
    moreover from Cons.prems(1) have "sorted_wrt (<) (map msg_id ys)" by simp
    ultimately show ?thesis
      using False Cons.IH [OF _ x Cons.prems(3)] Cons.prems(3) by simp
  qed
qed

lemma sorted_ids_inj:
  assumes "sorted_wrt (<) (map msg_id s)" and "x \<in> set s" and "y \<in> set s"
    and "msg_id x = msg_id y"
  shows "x = y"
proof -
  from assms(1) have "distinct (map msg_id s)"
    using strict_sorted_iff by blast
  then have "inj_on msg_id (set s)"
    by (simp add: distinct_map)
  with assms(2-4) show ?thesis
    by (simp add: inj_on_def)
qed

lemma fold_put:
  assumes "sorted_wrt (<) (map msg_id s)"
    and "\<forall>u \<in> set us. \<exists>x \<in> set s. msg_id x = msg_id u \<and> x\<lparr>read := True\<rparr> = u\<lparr>read := True\<rparr>"
  shows "fold (\<lambda>message st. put (message\<lparr>read := True\<rparr>) st) us s
       = map (\<lambda>y. if msg_id y \<in> msg_id ` set us then y\<lparr>read := True\<rparr> else y) s"
  using assms
proof (induction us arbitrary: s)
  case Nil
  then show ?case by (simp add: map_idI)
next
  case (Cons u us)
  let ?g = "\<lambda>y. if msg_id y = msg_id u then y\<lparr>read := True\<rparr> else y"
  from Cons.prems(2) obtain x where x: "x \<in> set s" "msg_id x = msg_id u"
      "x\<lparr>read := True\<rparr> = u\<lparr>read := True\<rparr>"
    by auto
  have "put (u\<lparr>read := True\<rparr>) s
      = map (\<lambda>y. if msg_id y = msg_id x then u\<lparr>read := True\<rparr> else y) s"
    using put_replace [OF Cons.prems(1) x(1), of "u\<lparr>read := True\<rparr>"] x(2) by simp
  also have "\<dots> = map ?g s"
  proof (rule map_cong [OF refl])
    fix y assume "y \<in> set s"
    then show "(if msg_id y = msg_id x then u\<lparr>read := True\<rparr> else y) = ?g y"
      using sorted_ids_inj [OF Cons.prems(1) _ x(1), of y] x by auto
  qed
  finally have step: "put (u\<lparr>read := True\<rparr>) s = map ?g s" .
  have ids: "map msg_id (map ?g s) = map msg_id s"
    by (simp add: comp_def if_distrib cong: if_cong)
  have sorted': "sorted_wrt (<) (map msg_id (map ?g s))"
    using Cons.prems(1) by (simp only: ids)
  have pre': "\<forall>v \<in> set us. \<exists>z \<in> set (map ?g s). msg_id z = msg_id v
                 \<and> z\<lparr>read := True\<rparr> = v\<lparr>read := True\<rparr>"
  proof
    fix v assume "v \<in> set us"
    with Cons.prems(2) obtain z where z: "z \<in> set s" "msg_id z = msg_id v"
        "z\<lparr>read := True\<rparr> = v\<lparr>read := True\<rparr>"
      by auto
    have "?g z \<in> set (map ?g s)" using z(1) by simp
    moreover have "msg_id (?g z) = msg_id v" using z(2) by simp
    moreover have "(?g z)\<lparr>read := True\<rparr> = v\<lparr>read := True\<rparr>" using z(3) by simp
    ultimately show "\<exists>z \<in> set (map ?g s). msg_id z = msg_id v
                 \<and> z\<lparr>read := True\<rparr> = v\<lparr>read := True\<rparr>"
      by blast
  qed
  have "fold (\<lambda>message st. put (message\<lparr>read := True\<rparr>) st) (u # us) s
      = fold (\<lambda>message st. put (message\<lparr>read := True\<rparr>) st) us (map ?g s)"
    by (simp add: step)
  also have "\<dots> = map (\<lambda>y. if msg_id y \<in> msg_id ` set us then y\<lparr>read := True\<rparr> else y)
                       (map ?g s)"
    by (rule Cons.IH [OF sorted' pre'])
  also have "\<dots> = map (\<lambda>y. if msg_id y \<in> msg_id ` set (u # us) then y\<lparr>read := True\<rparr> else y) s"
    by (auto simp: comp_def)
  finally show ?case .
qed

text \<open>
  C10: for a store whose records are in ascending order of their keys,
  \<open>markMessagesAsRead(matchId, userId)\<close> sets the \<open>read\<close> flag of the messages of that
  match that were sent by another user and were unread, and leaves every other record of
  the store as it was.
\<close>

theorem C10_mark_read:
  assumes "sorted_wrt (<) (map msg_id store)"
  shows "markMessagesAsRead store mid userId
       = map (\<lambda>m. if matchId m = mid \<and> senderId m \<noteq> userId \<and> \<not> read m
                   then m\<lparr>read := True\<rparr> else m) store"
proof -
  let ?us = "filter (\<lambda>m. senderId m \<noteq> userId \<and> \<not> read m) (getMatchMessages store mid)"
  have us: "set ?us = {m \<in> set store. matchId m = mid \<and> senderId m \<noteq> userId \<and> \<not> read m}"
    by (auto simp: getMatchMessages_def)
  have pre: "\<forall>u \<in> set ?us. \<exists>x \<in> set store. msg_id x = msg_id u
                \<and> x\<lparr>read := True\<rparr> = u\<lparr>read := True\<rparr>"
    unfolding us by blast
  have "markMessagesAsRead store mid userId
      = map (\<lambda>y. if msg_id y \<in> msg_id ` set ?us then y\<lparr>read := True\<rparr> else y) store"
    unfolding markMessagesAsRead_def Let_def by (rule fold_put [OF assms pre])
  also have "\<dots> = map (\<lambda>m. if matchId m = mid \<and> senderId m \<noteq> userId \<and> \<not> read m
                   then m\<lparr>read := True\<rparr> else m) store"
  proof (rule map_cong [OF refl])
    fix y assume y: "y \<in> set store"
    have "msg_id y \<in> msg_id ` set ?us \<longleftrightarrow> y \<in> set ?us"
    proof
      assume "msg_id y \<in> msg_id ` set ?us"
      then obtain z where z: "z \<in> set ?us" "msg_id y = msg_id z" by auto
      from z(1) have "z \<in> set store" unfolding us by simp
      from sorted_ids_inj [OF assms y this z(2)] z(1) show "y \<in> set ?us" by simp
    next
      assume "y \<in> set ?us" then show "msg_id y \<in> msg_id ` set ?us" by (rule imageI)
    qed
    with y show "(if msg_id y \<in> msg_id ` set ?us then y\<lparr>read := True\<rparr> else y)
        = (if matchId y = mid \<and> senderId y \<noteq> userId \<and> \<not> read y then y\<lparr>read := True\<rparr> else y)"
      unfolding us by simp
  qed
  finally show ?thesis .
qed

theorem C10_mark_read_witness:
  "sorted_wrt (<) (map msg_id example_messages)
   \<and> markMessagesAsRead example_messages 7 1 =
     [\<lparr>msg_id = 1, matchId = 7, senderId = 2, msg_text = ''hi'', msg_timestamp = 30, read = True\<rparr>,
      \<lparr>msg_id = 2, matchId = 7, senderId = 1, msg_text = ''hello'', msg_timestamp = 20, read = False\<rparr>,
      \<lparr>msg_id = 3, matchId = 8, senderId = 2, msg_text = ''hey'', msg_timestamp = 10, read = False\<rparr>,
      \<lparr>msg_id = 5, matchId = 7, senderId = 2, msg_text = ''you there?'', msg_timestamp = 5, read = True\<rparr>]"
proof -
  have h: "sorted_wrt (<) (map msg_id example_messages)"
    by (simp add: example_messages_def)
  from C10_mark_read [OF h, of 7 1] h show ?thesis
    by (simp add: example_messages_def)
qed

section \<open>Properties of the REST client\<close>

text \<open>
  C9: after \<open>logout\<close>, whatever the outcome of the call to \<open>/auth/logout\<close>, the fields
  \<open>token\<close> and \<open>currentUserId\<close> are \<open>null\<close>, the entries \<open>auth_token\<close> and \<open>user_id\<close>
  of \<open>localStorage\<close> are gone, and \<open>isLoggedIn()\<close> is false.
\<close>

theorem C9_logout_clears:
  "token (snd (logout net s)) = None
   \<and> currentUserId (snd (logout net s)) = None
   \<and> localStorage (snd (logout net s)) ''auth_token'' = None
   \<and> localStorage (snd (logout net s)) ''user_id'' = None
   \<and> \<not> isLoggedIn (snd (logout net s))"
  by (simp add: logout_def isLoggedIn_def truthy_string_def removeItem_def split_def)

end
